theory Spec2Isabelle
  imports Main "HOL-Library.Sublist"
begin

section \<open>Python strings\<close>

text \<open>
  A Python \<open>str\<close> is modelled as a \<open>string\<close>; a \<open>char\<close> stands for one code point in
  the range 0..255, on which \<open>str.lower\<close> and \<open>str.isalnum\<close> follow Python's tables
  (lower-casing maps that range into itself, one code point to one code point).
\<close>

definition lower_char :: "char \<Rightarrow> char" where
  "lower_char c =
     (let n = (of_char c :: nat)
      in if (65 \<le> n \<and> n \<le> 90) \<or> (192 \<le> n \<and> n \<le> 222 \<and> n \<noteq> 215)
         then char_of (n + 32) else c)"

definition py_lower :: "string \<Rightarrow> string" where
  "py_lower s = map lower_char s"

definition py_isalnum :: "char \<Rightarrow> bool" where
  "py_isalnum c =
     (let n = (of_char c :: nat)
      in (48 \<le> n \<and> n \<le> 57) \<or> (65 \<le> n \<and> n \<le> 90) \<or> (97 \<le> n \<and> n \<le> 122)
         \<or> n \<in> {170, 178, 179, 181, 185, 186, 188, 189, 190}
         \<or> (192 \<le> n \<and> n \<noteq> 215 \<and> n \<noteq> 247))"

text \<open>
  \<open>s.replace(old, new)\<close>: the occurrences of \<open>old\<close> are found from the left and do not
  overlap. With an empty \<open>old\<close>, Python puts \<open>new\<close> before every character and at the end.
\<close>

fun py_replace_scan :: "'a list \<Rightarrow> 'a list \<Rightarrow> 'a list \<Rightarrow> 'a list" where
  "py_replace_scan old new [] = []"
| "py_replace_scan old new (c # cs) =
     (if old \<noteq> [] \<and> prefix old (c # cs)
      then new @ py_replace_scan old new (drop (length old) (c # cs))
      else c # py_replace_scan old new cs)"

definition py_replace :: "'a list \<Rightarrow> 'a list \<Rightarrow> 'a list \<Rightarrow> 'a list" where
  "py_replace old new s =
     (if old = [] then new @ concat (map (\<lambda>c. c # new) s)
      else py_replace_scan old new s)"

section \<open>shared/utils.py: format\_brand\_name\<close>

text \<open>
  The dictionary returned by \<open>format_brand_name\<close>, without its \<open>display\<close> entry
  (\<open>brand_name.title()\<close>, which no other function of the repository reads).
\<close>

record brand_formatted =
  original :: string
  slug :: string
  component :: string
  filename :: string

definition format_brand_name :: "string \<Rightarrow> brand_formatted" where
  "format_brand_name brand_name =
     (let slug0 = py_replace ''_'' ''-'' (py_replace '' '' ''-'' (py_lower brand_name));
          slug = filter (\<lambda>c. py_isalnum c \<or> c = CHR ''-'') slug0;
          component_name =
            py_replace ''_'' '''' (py_replace ''-'' '''' (py_replace '' '' '''' brand_name))
      in \<lparr> original = brand_name, slug = slug, component = component_name, filename = slug \<rparr>)"

text \<open>The slug derivation in the words of the specification (section 4.3, step 3).\<close>

definition slug_spec :: "string \<Rightarrow> string" where
  "slug_spec b =
     filter (\<lambda>c. py_isalnum c \<or> c = CHR ''-'')
       (map (\<lambda>c. if c = CHR '' '' \<or> c = CHR ''_'' then CHR ''-'' else c) (py_lower b))"

section \<open>main.py: the deployment record's file\<close>

text \<open>
  \<open>_save_deployment_record\<close> writes to \<open>deployed_dir / f"{brand_slug}-deployment.json"\<close>;
  \<open>deployment_file\<close> is the pair of the directory and of the name joined to it.
\<close>

definition deployment_file_name :: "string \<Rightarrow> string" where
  "deployment_file_name brand_name =
     (let brand_slug = py_replace '' '' ''-'' (py_lower brand_name)
      in brand_slug @ ''-deployment.json'')"

definition deployment_file :: "string \<Rightarrow> string \<times> string" where
  "deployment_file brand_name = (''./deployed'', deployment_file_name brand_name)"

section \<open>site-integration/generator\_agent.py: deploy\_to\_vercel\<close>



section \<open>JSON values and their text\<close>

text \<open>
  The values that \<open>json.load\<close> and \<open>response.json()\<close> produce: \<open>None\<close>, booleans,
  integers, strings, lists and dictionaries (an association list in insertion order, read
  with \<open>map_of\<close>). Numbers are the integers.
\<close>

datatype json =
    JNull
  | JBool bool
  | JInt int
  | JStr string
  | JList "json list"
  | JDict "(string \<times> json) list"

definition digit_char :: "nat \<Rightarrow> char" where
  "digit_char d = (if d < 10 then char_of (48 + d) else char_of (87 + d))"

function str_nat :: "nat \<Rightarrow> string" where
  "str_nat n = (if n < 10 then [digit_char n] else str_nat (n div 10) @ [digit_char (n mod 10)])"
  by pat_completeness auto
termination
  by (relation "measure id") auto

declare str_nat.simps [simp del]

definition str_int :: "int \<Rightarrow> string" where
  "str_int i = (if i < 0 then CHR ''-'' # str_nat (nat (- i)) else str_nat (nat i))"

definition hex2 :: "nat \<Rightarrow> string" where
  "hex2 n = [digit_char (n div 16), digit_char (n mod 16)]"

definition join :: "'a list \<Rightarrow> 'a list list \<Rightarrow> 'a list" where
  "join sep xs = (case xs of [] \<Rightarrow> [] | y # ys \<Rightarrow> y @ concat (map (\<lambda>z. sep @ z) ys))"

text \<open>\<open>repr\<close> of a string: the quote is \<open>"\<close> only when the string has a \<open>'\<close> and no \<open>"\<close>.\<close>

definition py_isprintable :: "char \<Rightarrow> bool" where
  "py_isprintable c =
     (let n = (of_char c :: nat) in (32 \<le> n \<and> n < 127) \<or> (161 \<le> n \<and> n \<noteq> 173))"

definition repr_char :: "char \<Rightarrow> char \<Rightarrow> string" where
  "repr_char quote c =
     (if c = quote \<or> c = CHR 0x5C then [CHR 0x5C, c]
      else if c = CHR 0x09 then [CHR 0x5C, CHR ''t'']
      else if c = CHR 0x0A then [CHR 0x5C, CHR ''n'']
      else if c = CHR 0x0D then [CHR 0x5C, CHR ''r'']
      else if py_isprintable c then [c]
      else [CHR 0x5C, CHR ''x''] @ hex2 (of_char c))"

definition repr_str :: "string \<Rightarrow> string" where
  "repr_str s =
     (let quote = (if CHR 0x27 \<in> set s \<and> CHR 0x22 \<notin> set s then CHR 0x22 else CHR 0x27)
      in [quote] @ concat (map (repr_char quote) s) @ [quote])"

primrec py_repr :: "json \<Rightarrow> string" where
  "py_repr JNull = ''None''"
| "py_repr (JBool b) = (if b then ''True'' else ''False'')"
| "py_repr (JInt i) = str_int i"
| "py_repr (JStr s) = repr_str s"
| "py_repr (JList xs) = ''['' @ join '', '' (map py_repr xs) @ '']''"
| "py_repr (JDict kvs) =
     ''{'' @ join '', '' (map (\<lambda>(k, r). repr_str k @ '': '' @ r) (map (map_prod id py_repr) kvs))
       @ ''}''"

definition py_str :: "json \<Rightarrow> string" where
  "py_str v = (case v of JStr s \<Rightarrow> s | _ \<Rightarrow> py_repr v)"

text \<open>
  \<open>json.dumps(v, indent=n)\<close> with the default \<open>ensure_ascii\<close>: every character outside
  \<open>' '..'~'\<close>, and \<open>"\<close> and the backslash, is escaped.
\<close>

definition json_escape_char :: "char \<Rightarrow> string" where
  "json_escape_char c =
     (if c = CHR 0x22 then [CHR 0x5C, CHR 0x22]
      else if c = CHR 0x5C then [CHR 0x5C, CHR 0x5C]
      else if c = CHR 0x08 then [CHR 0x5C, CHR ''b'']
      else if c = CHR 0x0C then [CHR 0x5C, CHR ''f'']
      else if c = CHR 0x0A then [CHR 0x5C, CHR ''n'']
      else if c = CHR 0x0D then [CHR 0x5C, CHR ''r'']
      else if c = CHR 0x09 then [CHR 0x5C, CHR ''t'']
      else if 32 \<le> (of_char c :: nat) \<and> (of_char c :: nat) \<le> 126 then [c]
      else [CHR 0x5C, CHR ''u'', CHR ''0'', CHR ''0''] @ hex2 (of_char c))"

definition json_string :: "string \<Rightarrow> string" where
  "json_string s = [CHR 0x22] @ concat (map json_escape_char s) @ [CHR 0x22]"

definition newline_indent :: "nat \<Rightarrow> nat \<Rightarrow> string" where
  "newline_indent indent level = CHR 0x0A # replicate (indent * level) CHR '' ''"

definition dumps_block :: "char \<Rightarrow> char \<Rightarrow> nat \<Rightarrow> nat \<Rightarrow> string list \<Rightarrow> string" where
  "dumps_block opening closing indent level items =
     (if items = [] then [opening, closing]
      else [opening] @ newline_indent indent (Suc level)
           @ join ('','' @ newline_indent indent (Suc level)) items
           @ newline_indent indent level @ [closing])"

primrec dumps_at :: "nat \<Rightarrow> json \<Rightarrow> nat \<Rightarrow> string" where
  "dumps_at indent JNull = (\<lambda>level. ''null'')"
| "dumps_at indent (JBool b) = (\<lambda>level. if b then ''true'' else ''false'')"
| "dumps_at indent (JInt i) = (\<lambda>level. str_int i)"
| "dumps_at indent (JStr s) = (\<lambda>level. json_string s)"
| "dumps_at indent (JList xs) =
     (\<lambda>level. dumps_block CHR ''['' CHR '']'' indent level
        (map (\<lambda>f. f (Suc level)) (map (dumps_at indent) xs)))"
| "dumps_at indent (JDict kvs) =
     (\<lambda>level. dumps_block CHR ''{'' CHR ''}'' indent level
        (map (\<lambda>(k, f). json_string k @ '': '' @ f (Suc level))
           (map (map_prod id (dumps_at indent)) kvs)))"

definition json_dumps :: "nat \<Rightarrow> json \<Rightarrow> string" where
  "json_dumps indent v = dumps_at indent v 0"

section \<open>shared/utils.py: render\_template\<close>

definition placeholder :: "string \<Rightarrow> string" where
  "placeholder key = ''{{'' @ key @ ''}}''"

definition rendered :: "json \<Rightarrow> string" where
  "rendered v =
     (case v of JList _ \<Rightarrow> json_dumps 2 v | JDict _ \<Rightarrow> json_dumps 2 v | _ \<Rightarrow> py_str v)"

text \<open>
  The loop over \<open>variables.items()\<close>: the context is the list of its items in iteration
  order, the template content is the accumulator.
\<close>

fun render_template :: "string \<Rightarrow> (string \<times> json) list \<Rightarrow> string" where
  "render_template template_content [] = template_content"
| "render_template template_content ((key, v) # variables) =
     render_template (py_replace (placeholder key) (rendered v) template_content) variables"

definition brace_free :: "string \<Rightarrow> bool" where
  "brace_free k = (CHR ''{'' \<notin> set k \<and> CHR ''}'' \<notin> set k)"

section \<open>Python exceptions and dynamic operations on JSON values\<close>

text \<open>
  Every exception the modelled code can raise, with the text that \<open>str(e)\<close> gives.
  \<open>RequestError\<close> stands for whatever \<open>requests.get\<close> raises (connection refused,
  timeout, ...); \<open>KeyError\<close> carries the \<open>repr\<close> of the missing key.
\<close>

datatype exn =
    RequestError string
  | JSONDecodeError string
  | AttributeError string
  | KeyError string
  | IndexError string
  | TypeError string
  | FileNotFoundError string
  | OSError string
  | Exception string

fun str_exn :: "exn \<Rightarrow> string" where
  "str_exn (RequestError m) = m"
| "str_exn (JSONDecodeError m) = m"
| "str_exn (AttributeError m) = m"
| "str_exn (KeyError r) = r"
| "str_exn (IndexError m) = m"
| "str_exn (TypeError m) = m"
| "str_exn (FileNotFoundError m) = m"
| "str_exn (OSError m) = m"
| "str_exn (Exception m) = m"

definition bindE :: "exn + 'a \<Rightarrow> ('a \<Rightarrow> exn + 'b) \<Rightarrow> exn + 'b" where
  "bindE x f = (case x of Inl e \<Rightarrow> Inl e | Inr a \<Rightarrow> f a)"

fun type_name :: "json \<Rightarrow> string" where
  "type_name JNull = ''NoneType''"
| "type_name (JBool b) = ''bool''"
| "type_name (JInt i) = ''int''"
| "type_name (JStr s) = ''str''"
| "type_name (JList xs) = ''list''"
| "type_name (JDict kvs) = ''dict''"

definition quoted :: "string \<Rightarrow> string" where
  "quoted s = [CHR 0x27] @ s @ [CHR 0x27]"

definition not_subscriptable :: "json \<Rightarrow> exn" where
  "not_subscriptable v = TypeError (quoted (type_name v) @ '' object is not subscriptable'')"

text \<open>\<open>d.get(key, default)\<close>: only a dictionary has the method.\<close>

fun py_get :: "json \<Rightarrow> string \<Rightarrow> json \<Rightarrow> exn + json" where
  "py_get (JDict kvs) key dflt = Inr (case map_of kvs key of None \<Rightarrow> dflt | Some v \<Rightarrow> v)"
| "py_get v key dflt =
     Inl (AttributeError (quoted (type_name v) @ '' object has no attribute '' @ quoted ''get''))"

text \<open>\<open>v[key]\<close> with a string key.\<close>

fun py_item :: "json \<Rightarrow> string \<Rightarrow> exn + json" where
  "py_item (JDict kvs) key =
     (case map_of kvs key of None \<Rightarrow> Inl (KeyError (repr_str key)) | Some v \<Rightarrow> Inr v)"
| "py_item (JList xs) key = Inl (TypeError ''list indices must be integers or slices, not str'')"
| "py_item (JStr s) key = Inl (TypeError (''string indices must be integers, not '' @ quoted ''str''))"
| "py_item v key = Inl (not_subscriptable v)"


text \<open>\<open>v[:n]\<close>.\<close>

fun py_upto :: "nat \<Rightarrow> json \<Rightarrow> exn + json" where
  "py_upto n (JList xs) = Inr (JList (take n xs))"
| "py_upto n (JStr s) = Inr (JStr (take n s))"
| "py_upto n (JDict kvs) = Inl (TypeError (''unhashable type: '' @ quoted ''slice''))"
| "py_upto n v = Inl (not_subscriptable v)"



fun py_eq_0 :: "json \<Rightarrow> bool" where
  "py_eq_0 (JInt i) = (i = 0)"
| "py_eq_0 (JBool b) = (\<not> b)"
| "py_eq_0 v = False"




section \<open>The world outside: network, configuration files, file system\<close>

text \<open>
  A request either raises (\<open>Failed\<close>, with the exception's text) or returns a response:
  its status code and its body, which \<open>response.json()\<close> parses or rejects.
  The environment fixes what the \<open>n\<close>-th request of a run, sent to a URL, is answered;
  what \<open>config/{niche}.json\<close> holds; which directory creations and file writes fail; and
  the clock's \<open>datetime.now().isoformat()\<close>. The calls of \<open>print\<close> and \<open>logging\<close> change
  no result and are left out.
\<close>

datatype body = BadJson string | Json json

datatype http_outcome = Failed string | Response nat body

type_synonym path = "string list"

text \<open>
  The text written to a file: in full (\<open>Text\<close>), or, for a template whose fixed text is
  left out, the values put into its slots, in order (\<open>Slots\<close>).
\<close>

datatype content = Text string | Slots "string list"

record env =
  net :: "nat \<Rightarrow> string \<Rightarrow> http_outcome"
  niche_files :: "string \<Rightarrow> body option"
  config_dir :: string
  mkdir_error :: "path \<Rightarrow> string option"
  write_error :: "path \<Rightarrow> string option"
  now_iso :: string

text \<open>What a run has done so far: requests sent, directories made, files written.\<close>

record world =
  requests :: nat
  dirs :: "path list"
  files :: "(path \<times> content) list"

type_synonym 'a run = "world \<Rightarrow> (exn + 'a) \<times> world"

definition returnR :: "'a \<Rightarrow> 'a run" where
  "returnR a w = (Inr a, w)"


definition liftR :: "exn + 'a \<Rightarrow> 'a run" where
  "liftR x w = (x, w)"

definition bindR :: "'a run \<Rightarrow> ('a \<Rightarrow> 'b run) \<Rightarrow> 'b run" where
  "bindR m f w = (case m w of (Inl e, w') \<Rightarrow> (Inl e, w') | (Inr a, w') \<Rightarrow> f a w')"

definition requests_get :: "env \<Rightarrow> string \<Rightarrow> (nat \<times> body) run" where
  "requests_get env url w =
     (let w' = w\<lparr>requests := Suc (requests w)\<rparr>
      in case net env (requests w) url of
           Failed m \<Rightarrow> (Inl (RequestError m), w')
         | Response status_code b \<Rightarrow> (Inr (status_code, b), w'))"

definition response_json :: "nat \<times> body \<Rightarrow> exn + json" where
  "response_json response =
     (case snd response of BadJson m \<Rightarrow> Inl (JSONDecodeError m) | Json v \<Rightarrow> Inr v)"

section \<open>shared/config.py: get\_server\_status, validate\_existing\_server\<close>

text \<open>The body of the \<open>try\<close> block of \<open>get_server_status\<close>.\<close>

definition get_server_status_try :: "env \<Rightarrow> string \<Rightarrow> ((string \<times> json) list) run" where
  "get_server_status_try env gcs_url =
     bindR (requests_get env (gcs_url @ ''/health'')) (\<lambda>health_response.
     let health_status = (fst health_response = 200) in
     bindR (requests_get env (gcs_url @ ''/products'')) (\<lambda>products_response.
     bindR (liftR
        (if fst products_response = 200
         then bindE (response_json products_response) (\<lambda>products_data.
              py_get products_data ''count'' (JInt 0))
         else Inr (JInt 0))) (\<lambda>products_count.
     bindR (requests_get env (gcs_url @ ''/sites'')) (\<lambda>sites_response.
     bindR (liftR
        (if fst sites_response = 200
         then bindE (response_json sites_response) (\<lambda>sites_data.
              py_get sites_data ''sites'' (JList []))
         else Inr (JList []))) (\<lambda>available_sites.
     returnR
       [(''healthy'', JBool health_status),
        (''products_count'', products_count),
        (''available_sites'', available_sites),
        (''url'', JStr gcs_url),
        (''last_checked'', JStr ''now'')])))))"

text \<open>\<open>get_server_status\<close>: the \<open>try\<close> block and its \<open>except Exception\<close> handler.\<close>

definition get_server_status :: "env \<Rightarrow> string \<Rightarrow> world \<Rightarrow> (string \<times> json) list \<times> world" where
  "get_server_status env gcs_url w =
     (case get_server_status_try env gcs_url w of
        (Inr status, w') \<Rightarrow> (status, w')
      | (Inl e, w') \<Rightarrow>
          ([(''healthy'', JBool False),
            (''error'', JStr (str_exn e)),
            (''url'', JStr gcs_url),
            (''last_checked'', JStr ''now'')], w'))"


section \<open>quick\_deploy.py: check\_server\_status\<close>

text \<open>The body of the \<open>try\<close> block: every \<open>return\<close> of a dictionary is a result.\<close>

definition check_server_status_try :: "env \<Rightarrow> string \<Rightarrow> ((string \<times> json) list) run" where
  "check_server_status_try env server_url =
     bindR (requests_get env (server_url @ ''/health'')) (\<lambda>health_response.
     if fst health_response \<noteq> 200
     then returnR [(''success'', JBool False),
                   (''error'', JStr (''Health check failed: '' @ str_nat (fst health_response)))]
     else
     bindR (requests_get env (server_url @ ''/products'')) (\<lambda>products_response.
     if fst products_response \<noteq> 200
     then returnR [(''success'', JBool False),
                   (''error'', JStr (''Products API failed: '' @ str_nat (fst products_response)))]
     else
     bindR (liftR (response_json products_response)) (\<lambda>data.
     bindR (liftR (py_get data ''count'' (JInt 0))) (\<lambda>products_count.
     if py_eq_0 products_count
     then returnR [(''success'', JBool False), (''error'', JStr ''No products found on server'')]
     else
     bindR (liftR (bindE (py_get data ''products'' (JList [])) (py_upto 3))) (\<lambda>sample_products.
     returnR
       [(''success'', JBool True),
        (''products_count'', products_count),
        (''sample_products'', sample_products)])))))"

definition check_server_status :: "env \<Rightarrow> string \<Rightarrow> world \<Rightarrow> (string \<times> json) list \<times> world" where
  "check_server_status env server_url w =
     (case check_server_status_try env server_url w of
        (Inr result, w') \<Rightarrow> (result, w')
      | (Inl e, w') \<Rightarrow> ([(''success'', JBool False), (''error'', JStr (str_exn e))], w'))"

section \<open>shared/utils.py and shared/config.py: directories, files, niche configuration\<close>








section \<open>site-integration/generator\_agent.py: the templates\<close>

text \<open>
  The dictionary \<open>template_vars\<close> always has the same nine keys, so it is a record; a read
  \<open>template_vars["k"]\<close> or \<open>template_vars.get("k", d)\<close> is the field.
\<close>

record template_vars =
  tv_brand_name :: string
  tv_brand_slug :: string
  tv_api_url :: string
  tv_niche_config :: json
  tv_sample_products :: json
  tv_total_products :: json
  tv_generated_at :: string
  tv_color_scheme :: json
  tv_content_strategy :: json




















text \<open>\<open>template_vars["niche_config"]["site_config"][key]\<close>.\<close>

definition site_config_item :: "template_vars \<Rightarrow> string \<Rightarrow> exn + json" where
  "site_config_item tv key =
     bindE (py_item (tv_niche_config tv) ''site_config'') (\<lambda>site_config. py_item site_config key)"

definition create_next_config :: "template_vars \<Rightarrow> exn + content" where
  "create_next_config tv =
     bindE (site_config_item tv ''niche'') (\<lambda>niche.
     Inr (Slots [tv_brand_name tv, py_str niche]))"





section \<open>site-integration/generator\_agent.py: writing the site\<close>






text \<open>The dictionary literal \<open>template_vars\<close> of \<open>_generate_website_files\<close>; its values are
  computed in the order written.\<close>

definition build_template_vars ::
  "env \<Rightarrow> string \<Rightarrow> json \<Rightarrow> json \<Rightarrow> string \<Rightarrow> exn + template_vars" where
  "build_template_vars env brand_name niche_config product_data api_url =
     bindE (bindE (py_get product_data ''products'' (JList [])) (py_upto 6)) (\<lambda>sample_products.
     bindE (py_get product_data ''count'' (JInt 0)) (\<lambda>total_products.
     bindE (bindE (py_get niche_config ''design_config'' (JDict [])) (\<lambda>design_config.
            py_get design_config ''color_scheme'' (JDict []))) (\<lambda>color_scheme.
     bindE (py_get niche_config ''content_strategy'' (JDict [])) (\<lambda>content_strategy.
     Inr \<lparr> tv_brand_name = brand_name,
           tv_brand_slug = slug (format_brand_name brand_name),
           tv_api_url = api_url,
           tv_niche_config = niche_config,
           tv_sample_products = sample_products,
           tv_total_products = total_products,
           tv_generated_at = now_iso env,
           tv_color_scheme = color_scheme,
           tv_content_strategy = content_strategy \<rparr>))))"


section \<open>site-integration/generator\_agent.py: generate\_affiliate\_site\<close>

definition empty_sample :: json where
  "empty_sample = JDict [(''count'', JInt 0), (''products'', JList [])]"






section \<open>Vocabulary of the statements\<close>














section \<open>Example environments\<close>

definition outdoor_config :: json where
  "outdoor_config = JDict
     [(''site_config'', JDict
         [(''niche'', JStr ''outdoor-adventure''),
          (''primary_categories'', JList [JStr ''hiking'', JStr ''camping''])]),
      (''design_config'', JDict
         [(''color_scheme'', JDict [(''primary'', JStr ''#2D5016'')])]),
      (''content_strategy'', JDict
         [(''hero_headlines'', JList [JStr ''Gear Up for Adventure'']),
          (''primary_ctas'', JList [JStr ''Shop Now'', JStr ''Explore''])]),
      (''seo_optimization'', JDict [(''meta_description'', JStr ''Outdoor gear'')])]"

definition tent :: json where
  "tent = JDict [(''name'', JStr ''Tent''), (''price'', JStr ''129.99'')]"

text \<open>
  A server that answers every request: healthy, twelve products counted and five listed,
  both expected sites. The store holds the niche \<open>outdoor-adventure\<close> and an empty JSON
  object as the niche \<open>bare\<close>; the file system accepts everything.
\<close>

definition gcs_up :: env where
  "gcs_up =
     \<lparr> net = (\<lambda>n url.
         if url = ''http://gcs:8080/health''
           then Response 200 (Json (JDict [(''status'', JStr ''ok'')]))
         else if url = ''http://gcs:8080/products''
           then Response 200 (Json (JDict [(''count'', JInt 12),
                                           (''products'', JList [tent, tent, tent, tent, tent])]))
         else if url = ''http://gcs:8080/sites''
           then Response 200 (Json (JDict [(''sites'', JList [JStr ''amazon'', JStr ''cabelas''])]))
         else Response 404 (BadJson ''Expecting value: line 1 column 1 (char 0)'')),
       niche_files = (\<lambda>niche.
         if niche = ''outdoor-adventure'' then Some (Json outdoor_config)
         else if niche = ''bare'' then Some (Json (JDict []))
         else None),
       config_dir = ''/app/config'',
       mkdir_error = (\<lambda>p. None),
       write_error = (\<lambda>p. None),
       now_iso = ''2024-01-01T00:00:00'' \<rparr>"

text \<open>The same server when the request to \<open>/sites\<close>, or to \<open>/products\<close>, gets no answer.\<close>

definition sites_down :: env where
  "sites_down =
     gcs_up\<lparr> net := (\<lambda>n url.
       if url = ''http://gcs:8080/sites'' then Failed ''Connection refused''
       else net gcs_up n url) \<rparr>"

definition products_down :: env where
  "products_down =
     gcs_up\<lparr> net := (\<lambda>n url.
       if url = ''http://gcs:8080/products'' then Failed ''Read timed out''
       else net gcs_up n url) \<rparr>"



text \<open>The same server when \<open>/sites\<close> answers 404.\<close>

definition sites_404 :: env where
  "sites_404 =
     gcs_up\<lparr> net := (\<lambda>n url.
       if url = ''http://gcs:8080/sites'' then Response 404 (BadJson ''Expecting value: line 1 column 1 (char 0)'')
       else net gcs_up n url) \<rparr>"


definition start :: world where
  "start = \<lparr> requests = 0, dirs = [], files = [] \<rparr>"

section \<open>Properties of the string functions\<close>

lemma py_replace_scan_single:
  "py_replace_scan [a] [b] s = map (\<lambda>c. if c = a then b else c) s"
  by (induction s) auto

lemma py_replace_single:
  "py_replace [a] [b] s = map (\<lambda>c. if c = a then b else c) s"
  by (simp add: py_replace_def py_replace_scan_single)

text \<open>
  C6. For every brand name \<open>b\<close>, the slug of \<open>format_brand_name b\<close> is \<open>b\<close> lower-cased, with
  every space and every underscore replaced by a hyphen, and then every character removed
  that is neither alphanumeric nor a hyphen.
\<close>

theorem format_brand_name_slug:
  "slug (format_brand_name b) = slug_spec b"
proof -
  have both: "py_replace ''_'' ''-'' (py_replace '' '' ''-'' s) =
      map (\<lambda>c. if c = CHR '' '' \<or> c = CHR ''_'' then CHR ''-'' else c) s" for s
    by (induction s) (simp_all add: py_replace_single)
  show ?thesis
    by (simp add: format_brand_name_def slug_spec_def both Let_def)
qed

text \<open>
  C9. The brand "AC/DC Gear": the deployment record goes to the name
  \<open>ac/dc-gear-deployment.json\<close>, whereas the slug of \<open>format_brand_name\<close> gives
  \<open>acdc-gear-deployment.json\<close>.
\<close>

theorem deployment_file_name_not_slug:
  "deployment_file_name ''AC/DC Gear'' = ''ac/dc-gear-deployment.json'' \<and>
   slug (format_brand_name ''AC/DC Gear'') @ ''-deployment.json'' = ''acdc-gear-deployment.json''"
  by code_simp



section \<open>Properties of render\_template\<close>

lemma py_replace_scan_absent:
  "\<not> sublist old s \<Longrightarrow> py_replace_scan old new s = s"
proof (induction s)
  case Nil
  then show ?case by simp
next
  case (Cons c cs)
  from Cons.prems have "\<not> prefix old (c # cs)"
    using prefix_imp_sublist by blast
  moreover from Cons.prems have "\<not> sublist old cs"
    by (simp add: sublist_Cons_right)
  ultimately show ?case
    using Cons.IH by simp
qed

lemma py_replace_absent:
  "\<not> sublist old s \<Longrightarrow> py_replace old new s = s"
  by (cases "old = []") (simp_all add: py_replace_def py_replace_scan_absent)

lemma scan_through:
  "(\<And>t'. t' \<noteq> [] \<Longrightarrow> suffix t' t \<Longrightarrow> \<not> prefix p (t' @ b)) \<Longrightarrow>
   py_replace_scan p v (t @ b) = t @ py_replace_scan p v b"
proof (induction t)
  case Nil
  then show ?case by simp
next
  case (Cons c t)
  have "\<not> prefix p ((c # t) @ b)"
    by (rule Cons.prems) simp_all
  moreover have "py_replace_scan p v (t @ b) = t @ py_replace_scan p v b"
    by (rule Cons.IH) (simp add: Cons.prems suffix_ConsI)
  ultimately show ?case by simp
qed

lemma scan_before:
  "(\<And>a'. a' \<noteq> [] \<Longrightarrow> suffix a' a \<Longrightarrow> prefix p (a' @ r) \<Longrightarrow> prefix p a') \<Longrightarrow>
   py_replace_scan p v (a @ r) = py_replace_scan p v a @ py_replace_scan p v r"
proof (induction p v a rule: py_replace_scan.induct)
  case (1 old new)
  then show ?case by simp
next
  case (2 old new c cs)
  show ?case
  proof (cases "old \<noteq> [] \<and> prefix old ((c # cs) @ r)")
    case True
    then have pre: "prefix old (c # cs)"
      using "2.prems"[of "c # cs"] by simp
    then have len: "length old \<le> length (c # cs)"
      by (rule prefix_length_le)
    have "py_replace_scan old new (drop (length old) (c # cs) @ r) =
          py_replace_scan old new (drop (length old) (c # cs)) @ py_replace_scan old new r"
    proof (rule "2.IH"(1))
      show "old \<noteq> [] \<and> prefix old (c # cs)" using True pre by simp
    next
      fix a' assume a: "a' \<noteq> []" "suffix a' (drop (length old) (c # cs))" "prefix old (a' @ r)"
      have "suffix (drop (length old) (c # cs)) (c # cs)" by (rule suffix_drop)
      with a(2) have s: "suffix a' (c # cs)" by (rule suffix_order.trans)
      show "prefix old a'" by (rule "2.prems"[OF a(1) s a(3)])
    qed
    moreover have z: "length old - length (c # cs) = 0"
      using len by simp
    have e3: "drop (length old) ((c # cs) @ r) = drop (length old) (c # cs) @ r"
      by (simp only: drop_append z drop_0)
    have e1: "py_replace_scan old new ((c # cs) @ r) =
        new @ py_replace_scan old new (drop (length old) ((c # cs) @ r))"
      using True by (simp only: append_Cons py_replace_scan.simps if_True simp_thms)
    have e2: "py_replace_scan old new (c # cs) =
        new @ py_replace_scan old new (drop (length old) (c # cs))"
      using True pre by (simp only: py_replace_scan.simps if_True simp_thms)
    ultimately show ?thesis
      unfolding e1 e2 e3 by simp
  next
    case False
    have npre: "\<not> (old \<noteq> [] \<and> prefix old (c # cs))"
    proof
      assume h: "old \<noteq> [] \<and> prefix old (c # cs)"
      then have "prefix old ((c # cs) @ r)" by (simp only: prefix_prefix)
      with h False show False by blast
    qed
    have ih: "py_replace_scan old new (cs @ r) = py_replace_scan old new cs @ py_replace_scan old new r"
    proof (rule "2.IH"(2))
      show "\<not> (old \<noteq> [] \<and> prefix old (c # cs))" by (rule npre)
    next
      fix a' assume a: "a' \<noteq> []" "suffix a' cs" "prefix old (a' @ r)"
      from a(2) have s: "suffix a' (c # cs)" by (rule suffix_ConsI)
      show "prefix old a'" by (rule "2.prems"[OF a(1) s a(3)])
    qed
    have f1: "py_replace_scan old new ((c # cs) @ r) = c # py_replace_scan old new (cs @ r)"
      using False by (simp only: append_Cons py_replace_scan.simps if_False)
    have f2: "py_replace_scan old new (c # cs) = c # py_replace_scan old new cs"
      using npre by (simp only: py_replace_scan.simps if_False)
    show ?thesis
      unfolding f1 f2 ih by simp
  qed
qed


lemma closing_prefix_eq:
  "brace_free j \<Longrightarrow> brace_free k \<Longrightarrow> prefix (j @ ''}}'') (k @ ''}}'' @ b) \<Longrightarrow> j = k"
proof (induction j arbitrary: k)
  case Nil
  then show ?case by (cases k) (auto simp: brace_free_def)
next
  case (Cons x j)
  then show ?case by (cases k) (auto simp: brace_free_def)
qed

lemma brace_free_no_open:
  "brace_free k \<Longrightarrow> \<not> prefix (CHR ''{'' # p) (k @ ''}}'' @ b)"
  by (cases k) (auto simp: brace_free_def)

lemma placeholder_not_inside:
  assumes j: "brace_free j" and k: "brace_free k" and ne: "j \<noteq> k"
    and t: "t' \<noteq> []" "suffix t' (placeholder k)"
  shows "\<not> prefix (placeholder j) (t' @ b)"
proof
  assume p: "prefix (placeholder j) (t' @ b)"
  from t(2) consider "t' = placeholder k" | "t' = CHR ''{'' # k @ ''}}''" | "suffix t' (k @ ''}}'')"
    by (auto simp: placeholder_def suffix_Cons)
  then show False
  proof cases
    case 1
    with p have "prefix (j @ ''}}'') (k @ ''}}'' @ b)" by (simp add: placeholder_def)
    with j k ne show False using closing_prefix_eq by blast
  next
    case 2
    with p have "prefix (CHR ''{'' # j @ ''}}'') (k @ ''}}'' @ b)" by (simp add: placeholder_def)
    with k show False using brace_free_no_open by blast
  next
    case 3
    then have "set t' \<subseteq> set (k @ ''}}'')" by (rule set_mono_suffix)
    moreover from t(1) obtain c cs where tc: "t' = c # cs" by (cases t') auto
    ultimately have "c \<noteq> CHR ''{''" using k by (auto simp: brace_free_def)
    with p tc show False by (simp add: placeholder_def)
  qed
qed

lemma placeholder_not_across:
  assumes j: "brace_free j" and k: "brace_free k"
    and a: "a' \<noteq> []" and p: "prefix (placeholder j) (a' @ placeholder k @ b)"
  shows "prefix (placeholder j) a'"
proof -
  from p consider "prefix (placeholder j) a'"
    | us where "placeholder j = a' @ us" "prefix us (placeholder k @ b)"
    by (auto simp: prefix_append)
  then show ?thesis
  proof cases
    case 1
    then show ?thesis .
  next
    case 2
    show ?thesis
    proof (cases us)
      case Nil
      with 2 show ?thesis by simp
    next
      case (Cons u us')
      with 2(2) have u: "u = CHR ''{''" and us': "prefix us' (CHR ''{'' # k @ ''}}'' @ b)"
        by (simp_all add: placeholder_def)
      from a obtain x a2 where a': "a' = x # a2" by (cases a') auto
      with 2(1) Cons u have eq: "CHR ''{'' # j @ ''}}'' = a2 @ CHR ''{'' # us'"
        by (auto simp: placeholder_def)
      show ?thesis
      proof (cases a2)
        case Nil
        with eq have "us' = j @ ''}}''" by simp
        with us' have "prefix (j @ ''}}'') (CHR ''{'' # k @ ''}}'' @ b)" by simp
        with j have False by (cases j) (auto simp: brace_free_def)
        then show ?thesis ..
      next
        case (Cons y a3)
        with eq have "j @ ''}}'' = a3 @ CHR ''{'' # us'" by simp
        then have "CHR ''{'' \<in> set (j @ ''}}'')"
          by (metis in_set_conv_decomp)
        with j have False by (auto simp: brace_free_def)
        then show ?thesis ..
      qed
    qed
  qed
qed

lemma py_replace_keeps_placeholder:
  assumes j: "brace_free j" and k: "brace_free k" and ne: "j \<noteq> k"
    and s: "sublist (placeholder k) s"
  shows "sublist (placeholder k) (py_replace (placeholder j) new s)"
proof -
  from s obtain a b where s: "s = a @ placeholder k @ b"
    by (auto simp: sublist_def)
  have "py_replace_scan (placeholder j) new (a @ placeholder k @ b) =
        py_replace_scan (placeholder j) new a @ py_replace_scan (placeholder j) new (placeholder k @ b)"
    by (rule scan_before) (rule placeholder_not_across[OF j k])
  moreover have "py_replace_scan (placeholder j) new (placeholder k @ b) =
        placeholder k @ py_replace_scan (placeholder j) new b"
    by (rule scan_through) (rule placeholder_not_inside[OF j k ne])
  moreover have "placeholder j \<noteq> []" by (simp add: placeholder_def)
  ultimately have "py_replace (placeholder j) new s =
      py_replace_scan (placeholder j) new a @ placeholder k @ py_replace_scan (placeholder j) new b"
    by (simp add: py_replace_def s)
  then show ?thesis
    by (auto simp: sublist_def)
qed

text \<open>
  C7. For every context and every template that contains the placeholder \<open>{{k}}\<close> of no key
  \<open>k\<close> of the context, \<open>render_template\<close> returns the template unchanged.
\<close>

theorem render_template_no_placeholder:
  "\<forall>k \<in> fst ` set variables. \<not> sublist (placeholder k) template_content \<Longrightarrow>
   render_template template_content variables = template_content"
proof (induction variables)
  case Nil
  then show ?case by simp
next
  case (Cons kv variables)
  obtain key v where kv: "kv = (key, v)" by (cases kv)
  from Cons.prems kv have "\<not> sublist (placeholder key) template_content" by simp
  then have "py_replace (placeholder key) (rendered v) template_content = template_content"
    by (rule py_replace_absent)
  with Cons kv show ?case by simp
qed

theorem render_template_no_placeholder_witness:
  "render_template ''Hello {{name}}'' [(''brand'', JStr ''Acme''), (''total'', JInt 3)]
     = ''Hello {{name}}''"
proof -
  have h: "\<forall>k \<in> fst ` set [(''brand'', JStr ''Acme''), (''total'', JInt 3)].
      \<not> sublist (placeholder k) ''Hello {{name}}''"
    by code_simp
  show ?thesis
    by (rule render_template_no_placeholder [OF h])
qed

text \<open>
  C3, as stated: with the context key \<open>a}}{{b\<close> the template \<open>{{a}}{{b}}\<close> is one
  placeholder and is replaced as a whole; the token \<open>{{b}}\<close>, whose key \<open>b\<close> is not in
  the context, is not in the output.
\<close>

theorem render_template_loses_token:
  "sublist (placeholder ''b'') ''{{a}}{{b}}'' \<and>
   ''b'' \<notin> fst ` set [(''a}}{{b'', JStr ''x'')] \<and>
   render_template ''{{a}}{{b}}'' [(''a}}{{b'', JStr ''x'')] = ''x'' \<and>
   \<not> sublist (placeholder ''b'') (render_template ''{{a}}{{b}}'' [(''a}}{{b'', JStr ''x'')])"
  by code_simp

text \<open>
  C3, amended. \<open>render_template\<close> is a total function of the template and the context (it
  raises nothing and reads or writes nothing); and when no key of the context contains a
  brace, for every brace-free key \<open>k\<close> that is not in the context and whose token \<open>{{k}}\<close>
  is in the template, the token is in the output.
\<close>

theorem render_template_keeps_missing:
  assumes "\<forall>j \<in> fst ` set variables. brace_free j" and "brace_free k"
    and "k \<notin> fst ` set variables"
    and "sublist (placeholder k) template_content"
  shows "sublist (placeholder k) (render_template template_content variables)"
  using assms
proof (induction variables arbitrary: template_content)
  case Nil
  then show ?case by simp
next
  case (Cons kv variables)
  obtain key v where kv: "kv = (key, v)" by (cases kv)
  from Cons.prems kv have "brace_free key" "key \<noteq> k" by auto
  with Cons.prems have "sublist (placeholder k) (py_replace (placeholder key) (rendered v) template_content)"
    by (intro py_replace_keeps_placeholder) auto
  moreover from Cons.prems have "\<forall>j \<in> fst ` set variables. brace_free j" "k \<notin> fst ` set variables"
    by auto
  ultimately show ?case
    using Cons.IH Cons.prems(2) kv by simp
qed

theorem render_template_keeps_missing_witness:
  "brace_free ''name'' \<and>
   ''name'' \<notin> fst ` set [(''brand'', JStr ''Acme'')] \<and>
   sublist (placeholder ''name'') ''Hi {{name}} from {{brand}}'' \<and>
   sublist (placeholder ''name'')
     (render_template ''Hi {{name}} from {{brand}}'' [(''brand'', JStr ''Acme'')])"
proof -
  have h1: "\<forall>j \<in> fst ` set [(''brand'', JStr ''Acme'')]. brace_free j" by code_simp
  have h2: "brace_free ''name''" by code_simp
  have h3: "''name'' \<notin> fst ` set [(''brand'', JStr ''Acme'')]" by code_simp
  have h4: "sublist (placeholder ''name'') ''Hi {{name}} from {{brand}}''" by code_simp
  from render_template_keeps_missing [OF h1 h2 h3 h4] h2 h3 h4 show ?thesis
    by simp
qed

section \<open>Properties of the status checks\<close>


lemma bindE_Inl [simp]: "bindE (Inl e) f = Inl e"
  by (simp add: bindE_def)


lemma gss_raised:
  "fst (get_server_status_try env u w) = Inl e \<Longrightarrow>
   fst (get_server_status env u w) =
     [(''healthy'', JBool False), (''error'', JStr (str_exn e)), (''url'', JStr u),
      (''last_checked'', JStr ''now'')]"
  by (cases "get_server_status_try env u w") (auto simp: get_server_status_def)

lemma gss_returned:
  "fst (get_server_status_try env u w) = Inr d \<Longrightarrow> fst (get_server_status env u w) = d"
  by (cases "get_server_status_try env u w") (auto simp: get_server_status_def)

lemma gss_try_answered:
  assumes "fst (get_server_status_try env u w) = Inr d"
  shows "(\<exists>hs hb. net env (requests w) (u @ ''/health'') = Response hs hb) \<and>
     (\<exists>ps pb. net env (Suc (requests w)) (u @ ''/products'') = Response ps pb) \<and>
     (\<exists>ss sb. net env (Suc (Suc (requests w))) (u @ ''/sites'') = Response ss sb) \<and>
     (\<exists>b. map_of d ''healthy'' = Some (JBool b))"
  using assms
  by (auto simp: get_server_status_try_def bindR_def requests_get_def liftR_def returnR_def
      Let_def split: http_outcome.splits sum.splits if_splits)

lemma gss_responses:
  assumes "net env (requests w) (u @ ''/health'') = Response hs hb"
    and "net env (Suc (requests w)) (u @ ''/products'') = Response ps pb"
    and "net env (Suc (Suc (requests w))) (u @ ''/sites'') = Response ss sb"
  shows "fst (get_server_status_try env u w) =
     bindE (if ps = 200 then bindE (response_json (ps, pb)) (\<lambda>d. py_get d ''count'' (JInt 0))
            else Inr (JInt 0)) (\<lambda>products_count.
     bindE (if ss = 200 then bindE (response_json (ss, sb)) (\<lambda>d. py_get d ''sites'' (JList []))
            else Inr (JList [])) (\<lambda>available_sites.
     Inr [(''healthy'', JBool (hs = 200)), (''products_count'', products_count),
          (''available_sites'', available_sites), (''url'', JStr u),
          (''last_checked'', JStr ''now'')]))"
  using assms
  by (simp add: get_server_status_try_def bindR_def returnR_def liftR_def requests_get_def
      bindE_def Let_def split: sum.splits)

lemma gss_has_healthy:
  "\<exists>b. map_of (fst (get_server_status env u w)) ''healthy'' = Some (JBool b)"
proof (cases "fst (get_server_status_try env u w)")
  case (Inl e)
  then show ?thesis by (auto simp: gss_raised)
next
  case (Inr d)
  then show ?thesis using gss_try_answered [OF Inr] by (simp add: gss_returned)
qed

lemma gss_transport:
  assumes "net env (requests w) (u @ ''/health'') = Failed m \<or>
     net env (Suc (requests w)) (u @ ''/products'') = Failed m \<or>
     net env (Suc (Suc (requests w))) (u @ ''/sites'') = Failed m"
  shows "\<exists>e. fst (get_server_status_try env u w) = Inl e \<and>
     fst (get_server_status env u w) =
       [(''healthy'', JBool False), (''error'', JStr (str_exn e)), (''url'', JStr u),
        (''last_checked'', JStr ''now'')]"
proof (cases "fst (get_server_status_try env u w)")
  case (Inl e)
  then show ?thesis by (simp add: gss_raised)
next
  case (Inr d)
  from gss_try_answered [OF Inr] assms have False by auto
  then show ?thesis ..
qed

lemma css_try_cases:
  "(net env (requests w) (u @ ''/health'') = Failed m \<longrightarrow>
      fst (check_server_status_try env u w) = Inl (RequestError m)) \<and>
   (net env (requests w) (u @ ''/health'') = Response hs hb \<and> hs \<noteq> 200 \<longrightarrow>
      fst (check_server_status_try env u w) =
        Inr [(''success'', JBool False),
             (''error'', JStr (''Health check failed: '' @ str_nat hs))]) \<and>
   (net env (requests w) (u @ ''/health'') = Response 200 hb \<and>
    net env (Suc (requests w)) (u @ ''/products'') = Failed m \<longrightarrow>
      fst (check_server_status_try env u w) = Inl (RequestError m))"
  by (simp add: check_server_status_try_def bindR_def requests_get_def returnR_def Let_def)

lemma css_result:
  "fst (check_server_status env u w) =
     (case fst (check_server_status_try env u w) of
        Inr result \<Rightarrow> result
      | Inl e \<Rightarrow> [(''success'', JBool False), (''error'', JStr (str_exn e))])"
  by (cases "check_server_status_try env u w") (auto simp: check_server_status_def split: sum.splits)

lemma css_transport:
  assumes "net env (requests w) (u @ ''/health'') = Failed m \<or>
     net env (Suc (requests w)) (u @ ''/products'') = Failed m"
  shows "map_of (fst (check_server_status env u w)) ''success'' = Some (JBool False) \<and>
     (\<exists>msg. map_of (fst (check_server_status env u w)) ''error'' = Some (JStr msg))"
proof (cases "net env (requests w) (u @ ''/health'')")
  case (Failed m')
  then show ?thesis using css_try_cases [of env w u m'] by (simp add: css_result)
next
  case (Response hs hb)
  show ?thesis
  proof (cases "hs = 200")
    case True
    with Response assms show ?thesis
      using css_try_cases [of env w u m hs hb] by (simp add: css_result)
  next
    case False
    with Response show ?thesis
      using css_try_cases [of env w u m hs hb] by (simp add: css_result)
  qed
qed

lemma css_has_success:
  "\<exists>b. map_of (fst (check_server_status env u w)) ''success'' = Some (JBool b)"
proof (cases "fst (check_server_status_try env u w)")
  case (Inl e)
  then show ?thesis by (auto simp: css_result)
next
  case (Inr d)
  then have "\<exists>b. map_of d ''success'' = Some (JBool b)"
    by (cases "check_server_status_try env u w")
      (auto simp: check_server_status_try_def bindR_def requests_get_def liftR_def returnR_def
        Let_def split: http_outcome.splits sum.splits if_splits)
  with Inr show ?thesis by (simp add: css_result)
qed

text \<open>
  C2. \<open>get_server_status\<close> and \<open>check_server_status\<close> return a record for every base URL
  and every behaviour of the network, with a boolean \<open>healthy\<close> (respectively \<open>success\<close>);
  and if a request they issue fails with a transport error, the record has \<open>healthy\<close>
  (respectively \<open>success\<close>) false and an \<open>error\<close> string, which for \<open>get_server_status\<close>
  is the text of the exception that left the \<open>try\<close> block.
\<close>

theorem status_checks_catch_failures:
  "(\<exists>b. map_of (fst (get_server_status env u w)) ''healthy'' = Some (JBool b)) \<and>
   (\<exists>b. map_of (fst (check_server_status env u w)) ''success'' = Some (JBool b)) \<and>
   (net env (requests w) (u @ ''/health'') = Failed m \<or>
    net env (Suc (requests w)) (u @ ''/products'') = Failed m \<or>
    net env (Suc (Suc (requests w))) (u @ ''/sites'') = Failed m \<longrightarrow>
      (\<exists>e. fst (get_server_status_try env u w) = Inl e \<and>
           fst (get_server_status env u w) =
             [(''healthy'', JBool False), (''error'', JStr (str_exn e)), (''url'', JStr u),
              (''last_checked'', JStr ''now'')])) \<and>
   (net env (requests w) (u @ ''/health'') = Failed m \<or>
    net env (Suc (requests w)) (u @ ''/products'') = Failed m \<longrightarrow>
      map_of (fst (check_server_status env u w)) ''success'' = Some (JBool False) \<and>
      (\<exists>msg. map_of (fst (check_server_status env u w)) ''error'' = Some (JStr msg)))"
  using gss_has_healthy css_has_success gss_transport css_transport by blast

theorem status_checks_catch_failures_witness:
  "net products_down (Suc (requests start)) (''http://gcs:8080'' @ ''/products'')
     = Failed ''Read timed out'' \<and>
   (\<exists>e. fst (get_server_status_try products_down ''http://gcs:8080'' start) = Inl e \<and>
        fst (get_server_status products_down ''http://gcs:8080'' start) =
          [(''healthy'', JBool False), (''error'', JStr (str_exn e)),
           (''url'', JStr ''http://gcs:8080''), (''last_checked'', JStr ''now'')]) \<and>
   map_of (fst (check_server_status products_down ''http://gcs:8080'' start)) ''success''
     = Some (JBool False) \<and>
   (\<exists>msg. map_of (fst (check_server_status products_down ''http://gcs:8080'' start)) ''error''
     = Some (JStr msg))"
proof -
  have h: "net products_down (Suc (requests start)) (''http://gcs:8080'' @ ''/products'')
     = Failed ''Read timed out''"
    by code_simp
  from h status_checks_catch_failures
    [of products_down "''http://gcs:8080''" start "''Read timed out''"]
  show ?thesis by blast
qed

text \<open>
  C4, as stated: when the request to \<open>/sites\<close> fails with a transport error, the record
  returned by \<open>get_server_status\<close> has no \<open>available_sites\<close> field.
\<close>

theorem available_sites_lost_on_failure:
  "net sites_down 2 ''http://gcs:8080/sites'' = Failed ''Connection refused'' \<and>
   map_of (fst (get_server_status sites_down ''http://gcs:8080'' start)) ''available_sites'' = None"
  by code_simp

text \<open>
  C4, amended. When each of the three requests gets a response, and each body that is read
  (status 200) is a JSON object, the record returned by \<open>get_server_status\<close> contains
  \<open>available_sites\<close>: the \<open>sites\<close> entry of the body, or the empty list without one, on
  status 200; the empty list on any other status.
\<close>

theorem available_sites_when_answered:
  assumes "net env (requests w) (u @ ''/health'') = Response hs hb"
    and "net env (Suc (requests w)) (u @ ''/products'') = Response ps pb"
    and "ps = 200 \<longrightarrow> (\<exists>pd. pb = Json (JDict pd))"
    and "net env (Suc (Suc (requests w))) (u @ ''/sites'') = Response ss sb"
    and "ss = 200 \<longrightarrow> sb = Json (JDict sd)"
  shows "map_of (fst (get_server_status env u w)) ''available_sites'' =
     Some (if ss = 200 then (case map_of sd ''sites'' of None \<Rightarrow> JList [] | Some s \<Rightarrow> s)
           else JList [])"
proof -
  have "\<exists>d. fst (get_server_status_try env u w) = Inr d \<and> map_of d ''available_sites'' =
     Some (if ss = 200 then (case map_of sd ''sites'' of None \<Rightarrow> JList [] | Some s \<Rightarrow> s)
           else JList [])"
    using assms(3,5) unfolding gss_responses[OF assms(1,2,4)]
    by (auto simp: bindE_def response_json_def)
  then show ?thesis
    using gss_returned by blast
qed

theorem available_sites_when_answered_witness:
  "net sites_404 (requests start) (''http://gcs:8080'' @ ''/health'')
     = Response 200 (Json (JDict [(''status'', JStr ''ok'')])) \<and>
   net sites_404 (Suc (requests start)) (''http://gcs:8080'' @ ''/products'')
     = Response 200 (Json (JDict [(''count'', JInt 12),
                                   (''products'', JList [tent, tent, tent, tent, tent])])) \<and>
   net sites_404 (Suc (Suc (requests start))) (''http://gcs:8080'' @ ''/sites'')
     = Response 404 (BadJson ''Expecting value: line 1 column 1 (char 0)'') \<and>
   map_of (fst (get_server_status sites_404 ''http://gcs:8080'' start)) ''available_sites''
     = Some (JList [])"
proof -
  have h1: "net sites_404 (requests start) (''http://gcs:8080'' @ ''/health'')
     = Response 200 (Json (JDict [(''status'', JStr ''ok'')]))"
    by code_simp
  have h2: "net sites_404 (Suc (requests start)) (''http://gcs:8080'' @ ''/products'')
     = Response 200 (Json (JDict [(''count'', JInt 12),
                                   (''products'', JList [tent, tent, tent, tent, tent])]))"
    by code_simp
  have h3: "(200::nat) = 200 \<longrightarrow>
     (\<exists>pd. Json (JDict [(''count'', JInt 12),
                          (''products'', JList [tent, tent, tent, tent, tent])]) = Json (JDict pd))"
    by simp
  have h4: "net sites_404 (Suc (Suc (requests start))) (''http://gcs:8080'' @ ''/sites'')
     = Response 404 (BadJson ''Expecting value: line 1 column 1 (char 0)'')"
    by code_simp
  have h5: "(404::nat) = 200 \<longrightarrow>
     BadJson ''Expecting value: line 1 column 1 (char 0)'' = Json (JDict [])"
    by simp
  from h1 h2 h4 available_sites_when_answered [OF h1 h2 h3 h4 h5]
  show ?thesis by simp
qed



section \<open>Properties of the site generator\<close>
































lemma requests_get_requests:
  "requests_get env url w = (r, w') \<Longrightarrow>
     w' = w\<lparr>requests := Suc (requests w)\<rparr>"
  by (auto simp: requests_get_def Let_def split: http_outcome.splits)



text \<open>
  A niche configuration that is an empty JSON object loads, and \<open>_create_next_config\<close>
  raises \<open>KeyError('site_config')\<close> on it.
\<close>

lemma empty_config_raises:
  "bindE (build_template_vars gcs_up ''Trail Pro'' (JDict []) empty_sample ''http://gcs:8080'')
     create_next_config = Inl (KeyError (quoted ''site_config''))"
  by code_simp




end
